theory Spec2Isabelle
  imports Complex_Main "HOL-Library.Sublist" "HOL-Library.AList"
begin

section \<open>Strings\<close>

text \<open>
  A Python \<open>str\<close> is modelled as a \<open>string\<close> whose characters are read as code
  points below 256, so \<open>length\<close> counts code points as Python's \<open>len\<close> does.
  The predicates below are the restrictions of \<open>str.isspace\<close> and of the character
  class \<open>[\x00-\x1f\x7f]\<close> to that range.
\<close>

definition is_space :: "char \<Rightarrow> bool" where
  "is_space c =
     (let n = (of_char c :: nat)
      in (9 \<le> n \<and> n \<le> 13) \<or> (28 \<le> n \<and> n \<le> 32) \<or> n = 133 \<or> n = 160)"

definition is_control :: "char \<Rightarrow> bool" where
  "is_control c = (let n = (of_char c :: nat) in n \<le> 31 \<or> n = 127)"

text \<open>\<open>s.strip()\<close>: leading and trailing whitespace removed.\<close>

definition strip :: "string \<Rightarrow> string" where
  "strip s = rev (dropWhile is_space (rev (dropWhile is_space s)))"

text \<open>\<open>sub in s\<close>: \<open>sub\<close> occurs in \<open>s\<close> as a contiguous substring.\<close>

fun contains :: "string \<Rightarrow> string \<Rightarrow> bool" where
  "contains sub [] = (sub = [])"
| "contains sub (c # cs) = (prefix sub (c # cs) \<or> contains sub cs)"

text \<open>\<open>s.endswith(suf)\<close> and \<open>s.startswith(pre)\<close>.\<close>

definition endswith :: "string \<Rightarrow> string \<Rightarrow> bool" where
  "endswith s suf = suffix suf s"

definition startswith :: "string \<Rightarrow> string \<Rightarrow> bool" where
  "startswith s pre = prefix pre s"

text \<open>
  \<open>s.replace(old, new)\<close>: every non-overlapping occurrence of \<open>old\<close>, scanning from
  the left, is replaced by \<open>new\<close>. For the empty \<open>old\<close> Python inserts \<open>new\<close> before
  every character and at the end.
\<close>

function replace :: "string \<Rightarrow> string \<Rightarrow> string \<Rightarrow> string" where
  "replace old new s =
     (if old = [] then new @ concat (map (\<lambda>c. c # new) s)
      else if s = [] then []
      else if prefix old s then new @ replace old new (drop (length old) s)
      else hd s # replace old new (tl s))"
  by pat_completeness auto
termination
  by (relation "measure (\<lambda>(old, new, s). length s)") (auto simp: neq_Nil_conv)

declare replace.simps [simp del]

text \<open>
  \<open>re.sub(r"[\x00-\x1f\x7f]", " ", q)\<close>: every control character becomes one space.
\<close>

definition sub_control :: "string \<Rightarrow> string" where
  "sub_control q = map (\<lambda>c. if is_control c then CHR '' '' else c) q"

text \<open>
  \<open>re.sub(r"\s+", " ", raw)\<close>: every maximal run of whitespace becomes one space.
\<close>

function collapse_ws :: "string \<Rightarrow> string" where
  "collapse_ws s =
     (if s = [] then []
      else if is_space (hd s) then CHR '' '' # collapse_ws (dropWhile is_space (tl s))
      else hd s # collapse_ws (tl s))"
  by pat_completeness auto
termination
  by (relation "measure length")
     (auto simp: neq_Nil_conv less_Suc_eq_le length_dropWhile_le)

declare collapse_ws.simps [simp del]

section \<open>Percent-encoding (\<open>urllib.parse.urlencode\<close>)\<close>

definition hexdigit :: "nat \<Rightarrow> char" where
  "hexdigit n = ''0123456789ABCDEF'' ! (n mod 16)"

definition pct :: "nat \<Rightarrow> string" where
  "pct b = [CHR ''%'', hexdigit (b div 16), hexdigit b]"

text \<open>The UTF-8 bytes of a code point below 256.\<close>

definition utf8 :: "char \<Rightarrow> nat list" where
  "utf8 c = (let n = (of_char c :: nat)
             in if n < 128 then [n] else [192 + n div 64, 128 + n mod 64])"

definition always_safe :: "char \<Rightarrow> bool" where
  "always_safe c =
     (let n = (of_char c :: nat)
      in (65 \<le> n \<and> n \<le> 90) \<or> (97 \<le> n \<and> n \<le> 122) \<or> (48 \<le> n \<and> n \<le> 57)
         \<or> c = CHR ''_'' \<or> c = CHR ''.'' \<or> c = CHR ''-'' \<or> c = CHR ''~'')"

text \<open>\<open>quote_plus(s, safe='')\<close>: a space becomes \<open>+\<close>, unreserved characters stay,
  every other character becomes the \<open>%XX\<close> escapes of its UTF-8 bytes.\<close>

definition quote_plus :: "string \<Rightarrow> string" where
  "quote_plus s =
     concat (map (\<lambda>c. if c = CHR '' '' then ''+''
                       else if always_safe c then [c]
                       else concat (map pct (utf8 c))) s)"

text \<open>\<open>urlencode({'q': query})\<close>.\<close>

definition urlencode_q :: "string \<Rightarrow> string" where
  "urlencode_q query = quote_plus ''q'' @ ''='' @ quote_plus query"

section \<open>Errors\<close>

text \<open>
  The exceptions that leave a function of the scraper. \<open>Deadlock\<close> stands for a
  coroutine that never resumes: \<open>async with self.sem\<close> on a semaphore whose value is 0.
\<close>

datatype error = ValueError string | IndexError | AssertionError | Deadlock

section \<open>Utilities of the scraper\<close>

text \<open>
  \<open>sanitize_query\<close>. The \<open>None\<close> check of the source is excluded by the argument's
  type. The order is the source's: strip, reject the empty result, cut at 200, replace
  control characters.
\<close>

definition sanitize_query :: "string \<Rightarrow> error + string" where
  "sanitize_query q0 =
     (let q = strip q0
      in if q = [] then Inl (ValueError (''query vac'' @ [CHR 0xED] @ ''o''))
         else let q = (if length q > 200 then take 200 q else q)
              in Inr (sub_control q))"

definition SAFE_CSV_PREFIXES :: "char list" where
  "SAFE_CSV_PREFIXES = [CHR ''+'', CHR ''-'', CHR ''='', CHR ''@'', CHR 0x09]"

definition csv_safe :: "string \<Rightarrow> string" where
  "csv_safe text =
     (if text = [] then text
      else if hd text \<in> set SAFE_CSV_PREFIXES then CHR 0x27 # text
      else text)"

definition build_url :: "string \<Rightarrow> string \<Rightarrow> error + string" where
  "build_url template query =
     (if \<not> contains ''{query}'' template
      then Inl (ValueError (''Template inv'' @ [CHR 0xE1] @ ''lida: '' @ template))
      else let encoded = urlencode_q query
           in if contains ''q={'' template then Inr (replace ''{query}'' query template)
              else let base = replace ''{query}'' [] template
                   in if contains ''?'' base
                      then (if endswith base ''?'' \<or> endswith base ''&''
                            then Inr (base @ encoded)
                            else Inr (base @ ''&'' @ encoded))
                      else Inr (base @ ''?'' @ encoded))"

section \<open>Configuration\<close>

definition DEFAULT_UA :: string where
  "DEFAULT_UA =
     ''Mozilla/5.0 (X11; Linux x86_64) AppleWebKit/537.36 '' @
     ''(KHTML, like Gecko) Chrome/124.0.0.0 Safari/537.36''"

text \<open>
  \<open>Target\<close>. Its field \<open>fields\<close> is called \<open>target_fields\<close> here; the dictionary
  is the list of its items in insertion order.
\<close>

record target =
  name :: string
  url_template :: string
  item_selector :: string
  target_fields :: "(string \<times> string) list"

record scraper_config =
  concurrency :: int
  connect_timeout_s :: real
  read_timeout_s :: real
  total_timeout_s :: real
  max_retries :: int
  backoff_base :: real
  user_agents :: "string list"
  obey_robots :: bool
  rate_delay_s :: real
  output_csv :: "string option"
  output_sqlite :: "string option"
  normalize_whitespace :: bool
  busqueda_intensiva :: bool
  busqueda_intesiva :: "bool option"

section \<open>The libraries and the outside world\<close>

text \<open>
  What \<open>aiohttp\<close>, \<open>urllib\<close>, \<open>random\<close> and \<open>bs4\<close> compute is not code of the
  repository; it is taken as a parameter. \<open>'rp\<close> is a \<open>RobotFileParser\<close> after
  \<open>parse\<close>, \<open>'n\<close> a node of a parsed document.
\<close>

datatype exn = TimeoutError | ClientError | OtherError

text \<open>
  The outcome of \<open>session.get\<close>: an exception, or a response with its status, its
  content type and what \<open>await resp.text()\<close> gives (which may raise as well).
\<close>

datatype response = Raised exn | Response nat string "exn + string"

record ('rp, 'n) env =
  urlparse :: "string \<Rightarrow> string \<times> string"
  http_get :: "nat \<Rightarrow> string \<Rightarrow> response"
  random_unit :: "nat \<Rightarrow> real"
  random_index :: "nat \<Rightarrow> nat"
  splitlines :: "string \<Rightarrow> string list"
  robots_parse :: "string list \<Rightarrow> 'rp"
  can_fetch :: "'rp \<Rightarrow> string \<Rightarrow> string \<Rightarrow> bool"
  soup_select :: "string \<Rightarrow> string \<Rightarrow> 'n list"
  select_one :: "'n \<Rightarrow> string \<Rightarrow> 'n option"
  find_tag :: "'n \<Rightarrow> string \<Rightarrow> 'n option"
  attr :: "'n \<Rightarrow> string \<Rightarrow> string option"
  get_text_strip :: "'n \<Rightarrow> string"

text \<open>
  \<open>urlparse env url\<close> is the pair \<open>(scheme, netloc)\<close> of \<open>urlparse(url)\<close>;
  \<open>http_get env k url\<close> is the outcome of the \<open>k\<close>-th request of the run when it
  asks for \<open>url\<close>; \<open>random_unit env k\<close> and \<open>random_index env k\<close> are the \<open>k\<close>-th
  draw of the generator, read by \<open>random.random()\<close> and by \<open>random.choice\<close>;
  \<open>attr env n a\<close> is \<open>Some (n[a])\<close> when \<open>n.has_attr(a)\<close>; \<open>get_text_strip env n\<close>
  is \<open>n.get_text(strip=True)\<close>. \<open>robots_parse env lines\<close> is a fresh parser after
  \<open>parse(lines)\<close>, which skips the lines it does not understand and does not raise.
  Apart from \<open>session.get\<close> and \<open>resp.text\<close>, whose exceptions are outcomes of
  \<open>http_get\<close>, the library calls are taken to return: \<open>urlparse\<close> on a URL it
  rejects and \<open>select\<close> on a selector it rejects are outside the model.
\<close>

section \<open>State and observable events\<close>

datatype log =
    RobotsBlocked string
  | LogTimeout real string int
  | LogHttp nat string int
  | LogClientError string int
  | LogUnexpected string int

text \<open>
  \<open>RobotsGet url t\<close> is the request of \<open>RobotsCache.allowed\<close>, made with
  \<open>ClientTimeout(total=t)\<close>; \<open>PageGet url\<close> is the request of \<open>PersonScraper.fetch\<close>;
  \<open>RateDelay d\<close> is the \<open>asyncio.sleep(d)\<close> of \<open>fetch\<close> before a request and
  \<open>Sleep d\<close> the \<open>asyncio.sleep(d)\<close> of \<open>sleep_backoff\<close>.
\<close>

datatype event =
  RobotsGet string nat | PageGet string | RateDelay real | Sleep real | Log log

definition is_page_get :: "event \<Rightarrow> bool" where
  "is_page_get e = (case e of PageGet u \<Rightarrow> True | _ \<Rightarrow> False)"

definition is_sleep :: "event \<Rightarrow> bool" where
  "is_sleep e = (case e of Sleep d \<Rightarrow> True | _ \<Rightarrow> False)"

text \<open>
  \<open>session\<close> is \<open>None\<close> before \<open>__aenter__\<close> and afterwards holds the
  \<open>User-Agent\<close> header of the open session.
\<close>

record 'rp state =
  robots_cache :: "string \<rightharpoonup> 'rp"
  session :: "string option"
  trace :: "event list"
  requests :: nat
  draws :: nat

definition emit :: "event \<Rightarrow> 'rp state \<Rightarrow> 'rp state" where
  "emit e st = st\<lparr>trace := trace st @ [e]\<rparr>"

section \<open>Backoff\<close>

text \<open>
  Durations are real numbers: the rounding of Python's floats is not modelled.
  \<open>pow2 k\<close> is \<open>2 ** k\<close>.
\<close>

definition pow2 :: "int \<Rightarrow> real" where
  "pow2 k = (if 0 \<le> k then 2 ^ nat k else 1 / 2 ^ nat (- k))"

definition sleep_backoff :: "('rp, 'n) env \<Rightarrow> int \<Rightarrow> real \<Rightarrow> 'rp state \<Rightarrow> 'rp state" where
  "sleep_backoff env attempt base st =
     (let delay = base * pow2 (attempt - 1);
          delay = delay * (0.7 + random_unit env (draws st) * 0.6)
      in emit (Sleep delay) (st\<lparr>draws := draws st + 1\<rparr>))"

section \<open>RobotsCache\<close>

text \<open>
  \<open>RobotsCache.allowed\<close>. A cached parser is an object without \<open>__bool__\<close> or
  \<open>__len__\<close>, so \<open>if not rp\<close> holds exactly on a miss.
\<close>

definition robots_of_response :: "('rp, 'n) env \<Rightarrow> response \<Rightarrow> 'rp" where
  "robots_of_response env res =
     (case res of
        Raised e \<Rightarrow> robots_parse env []
      | Response status ctype body \<Rightarrow>
          (if status = 200
           then (case body of
                   Inl e \<Rightarrow> robots_parse env []
                 | Inr text \<Rightarrow> robots_parse env (splitlines env text))
           else robots_parse env []))"

definition allowed ::
  "('rp, 'n) env \<Rightarrow> 'rp state \<Rightarrow> string \<Rightarrow> string \<Rightarrow> bool \<times> 'rp state" where
  "allowed env st url ua =
     (let (scheme, netloc) = urlparse env url
      in if scheme = [] \<or> netloc = [] then (True, st)
         else let key = scheme @ ''://'' @ netloc
              in case robots_cache st key of
                   Some rp \<Rightarrow> (can_fetch env rp ua url, st)
                 | None \<Rightarrow>
                     (let robots_url = scheme @ ''://'' @ netloc @ ''/robots.txt'';
                          res = http_get env (requests st) robots_url;
                          rp = robots_of_response env res;
                          st = emit (RobotsGet robots_url 5)
                                 (st\<lparr>requests := requests st + 1\<rparr>);
                          st = st\<lparr>robots_cache := (robots_cache st)(key \<mapsto> rp)\<rparr>
                      in (can_fetch env rp ua url, st)))"

section \<open>PersonScraper\<close>

text \<open>
  The attributes of a \<open>PersonScraper\<close> that its methods read. The robots cache and the
  session are in the state; the semaphore is \<open>concurrency\<close> of the configuration.
\<close>

record scraper =
  cfg :: scraper_config
  targets :: "target list"

text \<open>
  \<open>__init__\<close>. \<open>asyncio.Semaphore\<close> raises \<open>ValueError\<close> on a negative value.
\<close>

definition init :: "scraper_config \<Rightarrow> target list \<Rightarrow> error + scraper" where
  "init config ts =
     (let config = (if busqueda_intesiva config = Some True
                    then config\<lparr>busqueda_intensiva := True\<rparr> else config)
      in if concurrency config < 0
         then Inl (ValueError ''Semaphore initial value must be >= 0'')
         else Inr \<lparr>cfg = config, targets = ts\<rparr>)"

text \<open>\<open>random.choice(seq)\<close>; it raises \<open>IndexError\<close> on an empty sequence.\<close>

definition random_choice :: "('rp, 'n) env \<Rightarrow> nat \<Rightarrow> 'a list \<Rightarrow> error + 'a" where
  "random_choice env k xs =
     (if xs = [] then Inl IndexError else Inr (xs ! (random_index env k mod length xs)))"

text \<open>\<open>random.choice(self.cfg.user_agents) or DEFAULT_UA\<close>, stored as the header.\<close>

definition choose_ua :: "('rp, 'n) env \<Rightarrow> scraper \<Rightarrow> 'rp state \<Rightarrow> error + 'rp state" where
  "choose_ua env self st =
     (case random_choice env (draws st) (user_agents (cfg self)) of
        Inl e \<Rightarrow> Inl e
      | Inr ua \<Rightarrow>
          Inr (st\<lparr>session := Some (if ua = [] then DEFAULT_UA else ua),
                  draws := draws st + 1\<rparr>))"

text \<open>\<open>__aenter__\<close>.\<close>

definition aenter :: "('rp, 'n) env \<Rightarrow> scraper \<Rightarrow> 'rp state \<Rightarrow> error + 'rp state" where
  "aenter env self st = choose_ua env self st"

subsection \<open>fetch\<close>

datatype 'a flow = Return 'a | Continue

definition retryable :: "nat list" where
  "retryable = [429, 500, 502, 503, 504]"

definition log_exn :: "scraper \<Rightarrow> exn \<Rightarrow> string \<Rightarrow> int \<Rightarrow> log" where
  "log_exn self e url attempt =
     (case e of
        TimeoutError \<Rightarrow> LogTimeout (read_timeout_s (cfg self)) url attempt
      | ClientError \<Rightarrow> LogClientError url attempt
      | OtherError \<Rightarrow> LogUnexpected url attempt)"

text \<open>
  The body of the \<open>try\<close> of one attempt with its handlers: \<open>Return\<close> is a
  \<open>return\<close> of \<open>fetch\<close>, \<open>Continue\<close> a handled exception.
\<close>

definition attempt_get ::
  "('rp, 'n) env \<Rightarrow> scraper \<Rightarrow> string \<Rightarrow> int \<Rightarrow> 'rp state
     \<Rightarrow> string option flow \<times> 'rp state" where
  "attempt_get env self url attempt st =
     (let st = (if rate_delay_s (cfg self) \<noteq> 0
                then emit (RateDelay (rate_delay_s (cfg self))) st else st);
          res = http_get env (requests st) url;
          st = emit (PageGet url) (st\<lparr>requests := requests st + 1\<rparr>)
      in case res of
           Raised e \<Rightarrow> (Continue, emit (Log (log_exn self e url attempt)) st)
         | Response status ctype body \<Rightarrow>
             (if status \<in> set retryable
              then (Continue, emit (Log (LogHttp status url attempt)) st)
              else if ctype \<noteq> [] \<and> \<not> contains ''text/html'' ctype
              then (Return None, st)
              else (case body of
                      Inl e \<Rightarrow> (Continue, emit (Log (log_exn self e url attempt)) st)
                    | Inr html \<Rightarrow> (Return (Some html), st))))"

text \<open>
  The loop \<open>for attempt in range(1, self.cfg.max_retries + 1)\<close>, over the list of the
  values of \<open>attempt\<close> still to run.
\<close>

fun fetch_loop ::
  "('rp, 'n) env \<Rightarrow> scraper \<Rightarrow> string \<Rightarrow> int list \<Rightarrow> 'rp state
     \<Rightarrow> (error + string option) \<times> 'rp state" where
  "fetch_loop env self url [] st = (Inr None, st)"
| "fetch_loop env self url (attempt # rest) st =
     (if concurrency (cfg self) \<le> 0 then (Inl Deadlock, st)
      else case attempt_get env self url attempt st of
             (Return r, st) \<Rightarrow> (Inr r, st)
           | (Continue, st) \<Rightarrow>
               fetch_loop env self url rest
                 (if attempt < max_retries (cfg self)
                  then sleep_backoff env attempt (backoff_base (cfg self)) st
                  else st))"

text \<open>
  \<open>fetch\<close>: \<open>Inr None\<close> and \<open>Inr (Some html)\<close> are its two kinds of return value,
  \<open>Inl\<close> an exception that leaves it.
\<close>

definition fetch ::
  "('rp, 'n) env \<Rightarrow> scraper \<Rightarrow> 'rp state \<Rightarrow> string
     \<Rightarrow> (error + string option) \<times> 'rp state" where
  "fetch env self st url =
     (case session st of
        None \<Rightarrow> (Inl AssertionError, st)
      | Some ua \<Rightarrow>
          (if obey_robots (cfg self)
           then (let (ok, st) = allowed env st url ua
                 in if \<not> ok then (Inr None, emit (Log (RobotsBlocked url)) st)
                    else fetch_loop env self url [1..max_retries (cfg self)] st)
           else fetch_loop env self url [1..max_retries (cfg self)] st))"

subsection \<open>Extraction\<close>

text \<open>The node \<open>found\<close> of \<open>selector_find\<close>, for a non-empty selector.\<close>

definition find_node :: "('rp, 'n) env \<Rightarrow> 'n \<Rightarrow> string \<Rightarrow> 'n option" where
  "find_node env node selector =
     (if startswith selector ''.'' then select_one env node selector
      else if startswith selector ''#'' then select_one env node selector
      else if contains ''['' selector \<and> contains '']'' selector
      then select_one env node selector
      else find_tag env node selector)"

definition selector_find :: "('rp, 'n) env \<Rightarrow> 'n \<Rightarrow> string \<Rightarrow> string option" where
  "selector_find env node selector =
     (if selector = [] then None
      else let found = find_node env node selector
           in case found of
                None \<Rightarrow> None
              | Some f \<Rightarrow>
                  (case attr env f ''href'' of
                     Some v \<Rightarrow> Some v
                   | None \<Rightarrow>
                       (case attr env f ''src'' of
                          Some v \<Rightarrow> Some v
                        | None \<Rightarrow> Some (get_text_strip env f))))"

text \<open>An item is a dictionary from field names to text, in insertion order.\<close>

type_synonym item = "(string \<times> string) list"

text \<open>\<open>re.sub(r"\s+", " ", raw).strip()\<close>.\<close>

definition normalize_ws :: "string \<Rightarrow> string" where
  "normalize_ws raw = strip (collapse_ws raw)"

text \<open>
  The value \<open>raw\<close> that \<open>parse_items\<close> stores for one field:
  \<open>selector_find(node, field_sel) or ""\<close>, normalized when the configuration says so.
\<close>

definition field_raw :: "('rp, 'n) env \<Rightarrow> scraper \<Rightarrow> 'n \<Rightarrow> string \<Rightarrow> string" where
  "field_raw env self node field_sel =
     (let raw = (case selector_find env node field_sel of None \<Rightarrow> [] | Some v \<Rightarrow> v)
      in if normalize_whitespace (cfg self) then normalize_ws raw else raw)"

text \<open>The loop over \<open>target.fields.items()\<close>.\<close>

fun extract_fields ::
  "('rp, 'n) env \<Rightarrow> scraper \<Rightarrow> 'n \<Rightarrow> (string \<times> string) list \<Rightarrow> item \<Rightarrow> item" where
  "extract_fields env self node [] item = item"
| "extract_fields env self node ((field_name, field_sel) # rest) item =
     extract_fields env self node rest
       (AList.update field_name (field_raw env self node field_sel) item)"

text \<open>The loop over \<open>list(item.items())\<close>; every value is a \<open>str\<close>.\<close>

fun sanitize_fields :: "(string \<times> string) list \<Rightarrow> item \<Rightarrow> item" where
  "sanitize_fields [] item = item"
| "sanitize_fields ((k, v) # kvs) item =
     sanitize_fields kvs (AList.update k (csv_safe v) item)"

definition parse_item :: "('rp, 'n) env \<Rightarrow> scraper \<Rightarrow> target \<Rightarrow> 'n \<Rightarrow> item" where
  "parse_item env self t node =
     (let item = extract_fields env self node (target_fields t) [(''source'', name t)]
      in sanitize_fields item item)"

definition parse_items :: "('rp, 'n) env \<Rightarrow> scraper \<Rightarrow> string \<Rightarrow> target \<Rightarrow> item list" where
  "parse_items env self html t =
     map (parse_item env self t) (soup_select env html (item_selector t))"

subsection \<open>search\<close>

text \<open>\<open>any(v for k, v in item.items() if k != "source")\<close>.\<close>

definition nonempty_item :: "item \<Rightarrow> bool" where
  "nonempty_item item = list_ex (\<lambda>(k, v). k \<noteq> ''source'' \<and> v \<noteq> []) item"

text \<open>
  The loop over \<open>self.targets\<close>. The result is the list of the items yielded, the
  exception that ended the generator if one did, and the final state.
\<close>

fun search_targets ::
  "('rp, 'n) env \<Rightarrow> scraper \<Rightarrow> string \<Rightarrow> target list \<Rightarrow> 'rp state
     \<Rightarrow> item list \<times> error option \<times> 'rp state" where
  "search_targets env self query [] st = ([], None, st)"
| "search_targets env self query (t # ts) st =
     (case build_url (url_template t) query of
        Inl e \<Rightarrow> ([], Some e, st)
      | Inr url \<Rightarrow>
          (case (if busqueda_intensiva (cfg self) then choose_ua env self st else Inr st) of
             Inl e \<Rightarrow> ([], Some e, st)
           | Inr st \<Rightarrow>
               (case fetch env self st url of
                  (Inl e, st) \<Rightarrow> ([], Some e, st)
                | (Inr html, st) \<Rightarrow>
                    (let items = (case html of
                                    None \<Rightarrow> []
                                  | Some h \<Rightarrow>
                                      if h = [] then []
                                      else filter nonempty_item (parse_items env self h t));
                         (more, err, st) = search_targets env self query ts st
                     in (items @ more, err, st)))))"

definition search ::
  "('rp, 'n) env \<Rightarrow> scraper \<Rightarrow> string \<Rightarrow> 'rp state
     \<Rightarrow> item list \<times> error option \<times> 'rp state" where
  "search env self query st =
     (case sanitize_query query of
        Inl e \<Rightarrow> ([], Some e, st)
      | Inr query \<Rightarrow>
          (case session st of
             None \<Rightarrow> ([], Some AssertionError, st)
           | Some ua \<Rightarrow> search_targets env self query (targets self) st))"

section \<open>The reading of the specification\<close>



section \<open>A concrete world\<close>

text \<open>
  The defaults of \<open>ScraperConfig\<close>, a state before \<open>__aenter__\<close> and one after it, and
  one instance of the libraries and the network: robots.txt of a host whose name
  contains \<open>down\<close> cannot be fetched, every other host disallows \<open>/private\<close>, a URL
  that contains \<open>busy\<close> answers 503 every time, and every page has the same two result
  nodes, each given by its attributes and its text.
\<close>

definition default_config :: scraper_config where
  "default_config =
     \<lparr>concurrency = 8, connect_timeout_s = 5, read_timeout_s = 10, total_timeout_s = 20,
      max_retries = 3, backoff_base = 1 / 2, user_agents = [DEFAULT_UA],
      obey_robots = True, rate_delay_s = 0, output_csv = Some ''results.csv'',
      output_sqlite = None, normalize_whitespace = True, busqueda_intensiva = False,
      busqueda_intesiva = None\<rparr>"

definition DEFAULT_TARGETS :: "target list" where
  "DEFAULT_TARGETS =
     [\<lparr>name = ''PeopleSearchExample'',
       url_template = ''https://example.com/search{query}'',
       item_selector = ''.result'',
       target_fields =
         [(''title'', ''.title''), (''full_name'', ''.name''), (''username'', ''.handle''),
          (''link'', ''a[href]''), (''snippet'', ''.summary'')]\<rparr>]"

definition initial_state :: "string list state" where
  "initial_state =
     \<lparr>robots_cache = Map.empty, session = None, trace = [], requests = 0, draws = 0\<rparr>"

definition entered_state :: "string list state" where
  "entered_state = initial_state\<lparr>session := Some DEFAULT_UA\<rparr>"

definition example_env :: "(string list, (string \<times> string) list \<times> string) env" where
  "example_env =
     \<lparr>urlparse =
        (\<lambda>url. if prefix ''https://'' url
               then (''https'', takeWhile (\<lambda>c. c \<noteq> CHR ''/'') (drop 8 url))
               else ([], [])),
      http_get =
        (\<lambda>k url.
           if endswith url ''/robots.txt''
           then (if contains ''down'' url then Raised ClientError
                 else Response 200 ''text/plain'' (Inr ''Disallow: /private''))
           else if contains ''busy'' url then Response 503 ''text/html'' (Inr [])
           else Response 200 ''text/html'' (Inr ''<html>'')),
      random_unit = (\<lambda>k. 1 / 2),
      random_index = (\<lambda>k. k),
      splitlines = (\<lambda>s. [s]),
      robots_parse = (\<lambda>lines. lines),
      can_fetch = (\<lambda>rp ua url. \<not> (rp \<noteq> [] \<and> contains ''/private'' url)),
      soup_select =
        (\<lambda>html sel. [([(''href'', ''/u/ana'')], ''Ana''), ([], ''=Ana  Lopez'')]),
      select_one = (\<lambda>n sel. Some n),
      find_tag = (\<lambda>n sel. Some n),
      attr = (\<lambda>n a. map_of (fst n) a),
      get_text_strip = (\<lambda>n. snd n)\<rparr>"

section \<open>Facts about the string functions\<close>

text \<open>\<open>contains\<close> decides the contiguous-substring relation.\<close>

lemma contains_iff_sublist: "contains sub s \<longleftrightarrow> sublist sub s"
  by (induction s) (auto simp: sublist_Cons_right)

lemma csv_safe_cases:
  "csv_safe text =
     (if text \<noteq> [] \<and> hd text \<in> {CHR ''+'', CHR ''-'', CHR ''='', CHR ''@'', CHR 0x09}
      then CHR 0x27 # text else text)"
  by (simp add: csv_safe_def SAFE_CSV_PREFIXES_def)

section \<open>Facts about items\<close>

lemma map_fst_sanitized: "map fst (map (\<lambda>(k, v). (k, f v)) xs) = map fst xs"
  by (induction xs) auto

lemma update_fresh_append:
  "k \<notin> set (map fst pre) \<Longrightarrow>
   AList.update k w (pre @ (k, v) # kvs) = pre @ (k, w) # kvs"
  by (induction pre) auto

text \<open>
  The second loop of \<open>parse_items\<close> walks a copy of the item while it overwrites the
  item; the keys of a dictionary are distinct, so the loop amounts to mapping
  \<open>csv_safe\<close> over the values.
\<close>

lemma sanitize_fields_suffix:
  "distinct (map fst (pre @ kvs)) \<Longrightarrow>
   sanitize_fields kvs (map (\<lambda>(k, v). (k, csv_safe v)) pre @ kvs) =
     map (\<lambda>(k, v). (k, csv_safe v)) (pre @ kvs)"
proof (induction kvs arbitrary: pre)
  case Nil
  then show ?case by simp
next
  case (Cons kv kvs)
  obtain k v where kv: "kv = (k, v)" by (cases kv)
  let ?f = "\<lambda>(k, v). (k, csv_safe v)"
  have notin: "k \<notin> set (map fst (map ?f pre))"
    using Cons.prems unfolding map_fst_sanitized by (simp add: kv)
  have upd: "AList.update k (csv_safe v) (map ?f pre @ (k, v) # kvs)
        = map ?f (pre @ [(k, v)]) @ kvs"
    using update_fresh_append [OF notin] by simp
  have dist: "distinct (map fst ((pre @ [(k, v)]) @ kvs))"
    using Cons.prems by (simp add: kv)
  show ?case
    using Cons.IH [OF dist] by (simp add: kv upd del: map_append)
qed

lemma sanitize_fields_self:
  "distinct (map fst item) \<Longrightarrow>
   sanitize_fields item item = map (\<lambda>(k, v). (k, csv_safe v)) item"
  using sanitize_fields_suffix [of "[]" item] by simp

lemma extract_fields_distinct:
  "distinct (map fst item) \<Longrightarrow> distinct (map fst (extract_fields env self node fs item))"
  by (induction fs arbitrary: item) (auto simp: Let_def distinct_update)

lemma parse_item_sanitized:
  "parse_item env self t node =
     map (\<lambda>(k, v). (k, csv_safe v))
       (extract_fields env self node (target_fields t) [(''source'', name t)])"
  by (simp add: parse_item_def Let_def sanitize_fields_self extract_fields_distinct)

section \<open>build\_url\<close>

text \<open>
  The two ways \<open>build_url\<close> returns a URL: a template in which \<open>q={\<close> occurs gets
  the query as it is; any other template loses its placeholder and gets the encoded
  pair appended.
\<close>

lemma build_url_q_branch:
  "contains ''{query}'' template \<Longrightarrow> contains ''q={'' template \<Longrightarrow>
   build_url template query = Inr (replace ''{query}'' query template)"
  by (simp add: build_url_def)

lemma build_url_generic_branch:
  "contains ''{query}'' template \<Longrightarrow> \<not> contains ''q={'' template \<Longrightarrow>
   \<exists>sep. build_url template query =
           Inr (replace ''{query}'' [] template @ sep @ ''q='' @ quote_plus query)"
proof -
  assume a: "contains ''{query}'' template" "\<not> contains ''q={'' template"
  have q: "quote_plus ''q'' = ''q''"
    by (simp add: quote_plus_def always_safe_def)
  let ?base = "replace ''{query}'' [] template"
  have "build_url template query = Inr (?base @ [] @ ''q='' @ quote_plus query) \<or>
        build_url template query = Inr (?base @ ''&'' @ ''q='' @ quote_plus query) \<or>
        build_url template query = Inr (?base @ ''?'' @ ''q='' @ quote_plus query)"
    using a by (simp add: build_url_def Let_def urlencode_q_def q)
  then show ?thesis by blast
qed

text \<open>
  C10. \<open>build_url\<close> raises \<open>ValueError\<close>, and returns no URL, for every template in
  which \<open>{query}\<close> does not occur as a substring, whatever the query.
\<close>

theorem build_url_rejects_template_without_placeholder:
  assumes "\<not> sublist ''{query}'' template"
  shows "build_url template query =
           Inl (ValueError (''Template inv'' @ [CHR 0xE1] @ ''lida: '' @ template))"
  using assms by (simp add: build_url_def contains_iff_sublist)

theorem build_url_rejects_template_without_placeholder_witness:
  "\<not> sublist ''{query}'' ''https://example.com/search'' \<and>
   build_url ''https://example.com/search'' ''ana'' =
     Inl (ValueError (''Template inv'' @ [CHR 0xE1] @ ''lida: https://example.com/search''))"
proof -
  have h: "\<not> sublist ''{query}'' ''https://example.com/search''"
    by (simp add: contains_iff_sublist [symmetric])
  show ?thesis
    using h build_url_rejects_template_without_placeholder [OF h, of "''ana''"] by simp
qed

text \<open>
  C2. The query \<open>a b&c\<close> passes \<open>sanitize_query\<close> unchanged. With the template
  \<open>https://example.com/search?q={query}\<close>, in which \<open>q={\<close> occurs, \<open>build_url\<close>
  returns the URL with the query substituted as it is, its space and its \<open>&\<close> not
  percent-encoded; with the template \<open>https://example.com/search{query}\<close> the same
  query is encoded as \<open>a+b%26c\<close>.
\<close>

theorem build_url_q_template_not_encoded:
  "sanitize_query ''a b&c'' = Inr ''a b&c'' \<and>
   build_url ''https://example.com/search?q={query}'' ''a b&c'' =
     Inr ''https://example.com/search?q=a b&c'' \<and>
   build_url ''https://example.com/search{query}'' ''a b&c'' =
     Inr ''https://example.com/search?q=a+b%26c''"
  by (simp add: build_url_def urlencode_q_def quote_plus_def replace.simps
        sanitize_query_def strip_def is_space_def sub_control_def is_control_def
        always_safe_def utf8_def pct_def hexdigit_def endswith_def)

section \<open>sanitize\_query\<close>





section \<open>Extraction\<close>



text \<open>
  C6. \<open>csv_safe\<close> returns its argument with one single quote in front exactly when
  the argument starts with \<open>+\<close>, \<open>-\<close>, \<open>=\<close>, \<open>@\<close> or TAB, and returns it
  unchanged exactly otherwise. \<open>parse_items\<close> applies it to every value of every item
  it produces, whatever the configuration: each item is the item built from the
  selectors with \<open>csv_safe\<close> mapped over its values.
\<close>

theorem csv_safe_applied_to_every_field:
  "(csv_safe text = CHR 0x27 # text \<longleftrightarrow>
      text \<noteq> [] \<and> hd text \<in> {CHR ''+'', CHR ''-'', CHR ''='', CHR ''@'', CHR 0x09}) \<and>
   (csv_safe text = text \<longleftrightarrow>
      \<not> (text \<noteq> [] \<and> hd text \<in> {CHR ''+'', CHR ''-'', CHR ''='', CHR ''@'', CHR 0x09})) \<and>
   parse_items env self html t =
     map (\<lambda>node. map (\<lambda>(k, v). (k, csv_safe v))
                   (extract_fields env self node (target_fields t) [(''source'', name t)]))
       (soup_select env html (item_selector t))"
  by (simp add: csv_safe_cases parse_items_def parse_item_sanitized)

lemma normalize_example: "normalize_ws ''=Ana  Lopez'' = ''=Ana Lopez''"
  by (simp add: normalize_ws_def collapse_ws.simps strip_def is_space_def)

theorem csv_safe_applied_to_every_field_witness:
  "csv_safe ''=Ana Lopez'' = CHR 0x27 # ''=Ana Lopez'' \<and>
   csv_safe ''Ana'' = ''Ana'' \<and>
   parse_items example_env \<lparr>cfg = default_config, targets = []\<rparr> ''<html>''
     \<lparr>name = ''-T'', url_template = ''https://example.com/search{query}'',
      item_selector = ''.result'', target_fields = [(''title'', ''.title'')]\<rparr> =
     [[(''source'', CHR 0x27 # ''-T''), (''title'', ''/u/ana'')],
      [(''source'', CHR 0x27 # ''-T''), (''title'', CHR 0x27 # ''=Ana Lopez'')]]"
proof -
  let ?self = "\<lparr>cfg = default_config, targets = []\<rparr>"
  let ?t = "\<lparr>name = ''-T'', url_template = ''https://example.com/search{query}'',
      item_selector = ''.result'', target_fields = [(''title'', ''.title'')]\<rparr>"
  have raw1: "field_raw example_env ?self ([(''href'', ''/u/ana'')], ''Ana'') ''.title'' = ''/u/ana''"
    by (simp add: field_raw_def selector_find_def find_node_def startswith_def example_env_def
        default_config_def normalize_ws_def collapse_ws.simps strip_def is_space_def)
  have raw2: "field_raw example_env ?self ([], ''=Ana  Lopez'') ''.title'' = ''=Ana Lopez''"
    by (simp add: field_raw_def selector_find_def find_node_def startswith_def example_env_def
        default_config_def normalize_example)
  have sel: "soup_select example_env ''<html>'' ''.result'' =
      [([(''href'', ''/u/ana'')], ''Ana''), ([], ''=Ana  Lopez'')]"
    by (simp add: example_env_def)
  show ?thesis
    using csv_safe_applied_to_every_field [of "''=Ana Lopez''" example_env ?self "''<html>''" ?t]
      csv_safe_applied_to_every_field [of "''Ana''" example_env ?self "''<html>''" ?t]
    by (simp add: raw1 raw2 sel csv_safe_cases)
qed



section \<open>RobotsCache.allowed\<close>









section \<open>fetch: denial by robots.txt\<close>

lemma allowed_trace:
  "urlparse env url = (scheme, netloc) \<Longrightarrow>
   trace (snd (allowed env st url ua)) = trace st \<or>
   trace (snd (allowed env st url ua)) =
     trace st @ [RobotsGet (scheme @ ''://'' @ netloc @ ''/robots.txt'') 5]"
  by (auto simp: allowed_def Let_def emit_def split: option.splits)

text \<open>
  C4. With \<open>obey_robots\<close> set, when \<open>allowed\<close> answers no for the URL and the
  session's user agent, \<open>fetch\<close> returns \<open>None\<close> at once: besides the log line, the
  only event it adds is the request for the host's robots.txt, and only if that was not
  cached. It issues no GET of the URL and no backoff sleep.
\<close>

theorem fetch_denied_is_immediate:
  assumes "session st = Some ua" and "obey_robots (cfg self)"
    and "\<not> fst (allowed env st url ua)"
    and "urlparse env url = (scheme, netloc)"
  shows "fetch env self st url =
           (Inr None, emit (Log (RobotsBlocked url)) (snd (allowed env st url ua))) \<and>
         (trace (snd (fetch env self st url)) = trace st @ [Log (RobotsBlocked url)] \<or>
          trace (snd (fetch env self st url)) =
            trace st @ [RobotsGet (scheme @ ''://'' @ netloc @ ''/robots.txt'') 5,
                        Log (RobotsBlocked url)]) \<and>
         filter is_page_get (trace (snd (fetch env self st url))) =
           filter is_page_get (trace st) \<and>
         filter is_sleep (trace (snd (fetch env self st url))) = filter is_sleep (trace st)"
proof -
  have f: "fetch env self st url =
           (Inr None, emit (Log (RobotsBlocked url)) (snd (allowed env st url ua)))"
    using assms(1-3) by (cases "allowed env st url ua") (simp add: fetch_def)
  have t: "trace (snd (fetch env self st url)) =
             trace (snd (allowed env st url ua)) @ [Log (RobotsBlocked url)]"
    by (simp add: f emit_def)
  show ?thesis
    using f t allowed_trace [OF assms(4), of st ua]
    by (auto simp: is_page_get_def is_sleep_def)
qed

theorem fetch_denied_is_immediate_witness:
  "session entered_state = Some DEFAULT_UA \<and>
   obey_robots (cfg \<lparr>cfg = default_config, targets = []\<rparr>) \<and>
   \<not> fst (allowed example_env entered_state ''https://example.com/private/ana'' DEFAULT_UA) \<and>
   urlparse example_env ''https://example.com/private/ana'' = (''https'', ''example.com'') \<and>
   fst (fetch example_env \<lparr>cfg = default_config, targets = []\<rparr> entered_state
          ''https://example.com/private/ana'') = Inr None \<and>
   trace (snd (fetch example_env \<lparr>cfg = default_config, targets = []\<rparr> entered_state
                 ''https://example.com/private/ana'')) =
     [RobotsGet ''https://example.com/robots.txt'' 5,
      Log (RobotsBlocked ''https://example.com/private/ana'')]"
proof -
  let ?url = "''https://example.com/private/ana''"
  let ?self = "\<lparr>cfg = default_config, targets = []\<rparr>"
  have a: "session entered_state = Some DEFAULT_UA"
    by (simp add: entered_state_def)
  have b: "obey_robots (cfg ?self)"
    by (simp add: default_config_def)
  have up: "urlparse example_env ?url = (''https'', ''example.com'')"
    by (simp add: example_env_def)
  have al: "allowed example_env entered_state ?url DEFAULT_UA =
      (False, entered_state\<lparr>requests := 1,
                trace := [RobotsGet ''https://example.com/robots.txt'' 5],
                robots_cache := [''https://example.com'' \<mapsto> [''Disallow: /private'']]\<rparr>)"
    by (simp add: allowed_def up Let_def emit_def entered_state_def initial_state_def
          robots_of_response_def example_env_def endswith_def suffix_to_prefix)
  have c: "\<not> fst (allowed example_env entered_state ?url DEFAULT_UA)"
    by (simp add: al)
  show ?thesis
    using a b c up fetch_denied_is_immediate [OF a b c up]
    by (simp add: al emit_def)
qed

section \<open>fetch: the retry budget\<close>












section \<open>The legacy flag\<close>

text \<open>
  No method reads \<open>busqueda_intesiva\<close> after \<open>__init__\<close>: changing it in the
  configuration of a scraper changes nothing in what the methods do.
\<close>

lemma log_exn_ignores_legacy_flag:
  "log_exn (self\<lparr>cfg := (cfg self)\<lparr>busqueda_intesiva := x\<rparr>\<rparr>) e url attempt =
   log_exn self e url attempt"
  by (simp add: log_exn_def split: exn.splits)

lemma attempt_get_ignores_legacy_flag:
  "attempt_get env (self\<lparr>cfg := (cfg self)\<lparr>busqueda_intesiva := x\<rparr>\<rparr>) url attempt st =
   attempt_get env self url attempt st"
  unfolding attempt_get_def log_exn_ignores_legacy_flag by simp

lemma fetch_loop_ignores_legacy_flag:
  "fetch_loop env (self\<lparr>cfg := (cfg self)\<lparr>busqueda_intesiva := x\<rparr>\<rparr>) url atts st =
   fetch_loop env self url atts st"
  by (induction atts arbitrary: st)
     (simp_all add: attempt_get_ignores_legacy_flag split: prod.splits flow.splits)

lemma fetch_ignores_legacy_flag:
  "fetch env (self\<lparr>cfg := (cfg self)\<lparr>busqueda_intesiva := x\<rparr>\<rparr>) st url =
   fetch env self st url"
  by (simp add: fetch_def fetch_loop_ignores_legacy_flag split: option.splits prod.splits)

lemma extract_fields_ignores_legacy_flag:
  "extract_fields env (self\<lparr>cfg := (cfg self)\<lparr>busqueda_intesiva := x\<rparr>\<rparr>) node fs item =
   extract_fields env self node fs item"
  by (induction fs arbitrary: item) (auto simp: field_raw_def)

lemma parse_items_ignores_legacy_flag:
  "parse_items env (self\<lparr>cfg := (cfg self)\<lparr>busqueda_intesiva := x\<rparr>\<rparr>) html t =
   parse_items env self html t"
  by (simp add: parse_items_def parse_item_def extract_fields_ignores_legacy_flag)

lemma choose_ua_ignores_legacy_flag:
  "choose_ua env (self\<lparr>cfg := (cfg self)\<lparr>busqueda_intesiva := x\<rparr>\<rparr>) st = choose_ua env self st"
  by (simp add: choose_ua_def cong: sum.case_cong)

lemma search_targets_ignores_legacy_flag:
  "search_targets env (self\<lparr>cfg := (cfg self)\<lparr>busqueda_intesiva := x\<rparr>\<rparr>) q ts st =
   search_targets env self q ts st"
  by (induction ts arbitrary: st)
     (simp_all add: fetch_ignores_legacy_flag parse_items_ignores_legacy_flag
        choose_ua_ignores_legacy_flag
        cong: sum.case_cong prod.case_cong option.case_cong if_cong)

lemma search_ignores_legacy_flag:
  "search env (self\<lparr>cfg := (cfg self)\<lparr>busqueda_intesiva := x\<rparr>\<rparr>) q st = search env self q st"
  by (simp add: search_def search_targets_ignores_legacy_flag
        cong: sum.case_cong option.case_cong)

text \<open>
  C9. For a configuration whose legacy flag \<open>busqueda_intesiva\<close> is \<open>True\<close>,
  \<open>__init__\<close> sets \<open>busqueda_intensiva\<close>. Compared with the same configuration
  given with \<open>busqueda_intensiva = True\<close> and any value \<open>x\<close> of the legacy flag, the
  constructor fails in the same way when \<open>concurrency\<close> is negative, and otherwise the
  two scrapers differ in the legacy flag only and \<open>__aenter__\<close>, \<open>fetch\<close> and
  \<open>search\<close> give the same result and the same final state, for every query, target
  list, network and starting state.
\<close>

theorem legacy_flag_sets_intensive:
  assumes "busqueda_intesiva config = Some True"
  shows "(concurrency config < 0 \<longrightarrow>
            init config ts = Inl (ValueError ''Semaphore initial value must be >= 0'') \<and>
            init (config\<lparr>busqueda_intensiva := True, busqueda_intesiva := x\<rparr>) ts =
              Inl (ValueError ''Semaphore initial value must be >= 0'')) \<and>
         (0 \<le> concurrency config \<longrightarrow>
            (\<exists>self self'.
               init config ts = Inr self \<and>
               init (config\<lparr>busqueda_intensiva := True, busqueda_intesiva := x\<rparr>) ts = Inr self' \<and>
               busqueda_intensiva (cfg self) \<and>
               cfg self' = (cfg self)\<lparr>busqueda_intesiva := x\<rparr> \<and>
               targets self' = targets self \<and>
               aenter env self st = aenter env self' st \<and>
               fetch env self st url = fetch env self' st url \<and>
               search env self q st = search env self' q st))"
proof -
  let ?self = "\<lparr>cfg = config\<lparr>busqueda_intensiva := True\<rparr>, targets = ts\<rparr>"
  let ?self' = "\<lparr>cfg = config\<lparr>busqueda_intensiva := True, busqueda_intesiva := x\<rparr>,
                 targets = ts\<rparr>"
  have rel: "?self' = ?self\<lparr>cfg := (cfg ?self)\<lparr>busqueda_intesiva := x\<rparr>\<rparr>"
    by simp
  have i: "0 \<le> concurrency config \<Longrightarrow> init config ts = Inr ?self"
    using assms by (simp add: init_def)
  have i': "0 \<le> concurrency config \<Longrightarrow>
      init (config\<lparr>busqueda_intensiva := True, busqueda_intesiva := x\<rparr>) ts = Inr ?self'"
    by (simp add: init_def)
  have neg: "concurrency config < 0 \<Longrightarrow>
      init config ts = Inl (ValueError ''Semaphore initial value must be >= 0'') \<and>
      init (config\<lparr>busqueda_intensiva := True, busqueda_intesiva := x\<rparr>) ts =
        Inl (ValueError ''Semaphore initial value must be >= 0'')"
    by (simp add: init_def)
  have s: "search env ?self q st = search env ?self' q st"
    unfolding rel by (simp only: search_ignores_legacy_flag)
  have f: "fetch env ?self st url = fetch env ?self' st url"
    unfolding rel by (simp only: fetch_ignores_legacy_flag)
  have a: "aenter env ?self st = aenter env ?self' st"
    unfolding rel by (simp only: aenter_def choose_ua_ignores_legacy_flag)
  show ?thesis
  proof (intro conjI impI)
    assume "0 \<le> concurrency config"
    then show "\<exists>self self'.
               init config ts = Inr self \<and>
               init (config\<lparr>busqueda_intensiva := True, busqueda_intesiva := x\<rparr>) ts = Inr self' \<and>
               busqueda_intensiva (cfg self) \<and>
               cfg self' = (cfg self)\<lparr>busqueda_intesiva := x\<rparr> \<and>
               targets self' = targets self \<and>
               aenter env self st = aenter env self' st \<and>
               fetch env self st url = fetch env self' st url \<and>
               search env self q st = search env self' q st"
      using i i' s f a by (intro exI [of _ ?self] exI [of _ ?self']) simp
  qed (use neg in simp_all)
qed


theorem legacy_flag_sets_intensive_witness:
  "busqueda_intesiva (default_config\<lparr>busqueda_intesiva := Some True\<rparr>) = Some True \<and>
   0 \<le> concurrency (default_config\<lparr>busqueda_intesiva := Some True\<rparr>) \<and>
   init (default_config\<lparr>busqueda_intesiva := Some True\<rparr>) DEFAULT_TARGETS =
     Inr \<lparr>cfg = default_config\<lparr>busqueda_intensiva := True, busqueda_intesiva := Some True\<rparr>,
          targets = DEFAULT_TARGETS\<rparr> \<and>
   search example_env
     \<lparr>cfg = default_config\<lparr>busqueda_intensiva := True, busqueda_intesiva := Some True\<rparr>,
      targets = DEFAULT_TARGETS\<rparr> ''ana'' entered_state =
   search example_env
     \<lparr>cfg = default_config\<lparr>busqueda_intensiva := True, busqueda_intesiva := None\<rparr>,
      targets = DEFAULT_TARGETS\<rparr> ''ana'' entered_state"
proof -
  let ?config = "default_config\<lparr>busqueda_intesiva := Some True\<rparr>"
  have h: "busqueda_intesiva ?config = Some True" by simp
  have c: "0 \<le> concurrency ?config" by (simp add: default_config_def)
  have i: "init ?config DEFAULT_TARGETS =
     Inr \<lparr>cfg = default_config\<lparr>busqueda_intensiva := True, busqueda_intesiva := Some True\<rparr>,
          targets = DEFAULT_TARGETS\<rparr>"
    by (simp add: init_def default_config_def)
  have i': "init (?config\<lparr>busqueda_intensiva := True, busqueda_intesiva := None\<rparr>)
              DEFAULT_TARGETS =
     Inr \<lparr>cfg = default_config\<lparr>busqueda_intensiva := True, busqueda_intesiva := None\<rparr>,
          targets = DEFAULT_TARGETS\<rparr>"
    by (simp add: init_def default_config_def)
  obtain self self' where
    s: "init ?config DEFAULT_TARGETS = Inr self"
    and s': "init (?config\<lparr>busqueda_intensiva := True, busqueda_intesiva := None\<rparr>)
               DEFAULT_TARGETS = Inr self'"
    and eq: "search example_env self ''ana'' entered_state =
             search example_env self' ''ana'' entered_state"
    using legacy_flag_sets_intensive [OF h, of DEFAULT_TARGETS None example_env entered_state
        "''https://example.com/search?q=ana''" "''ana''"] c
    by blast
  have "self = \<lparr>cfg = default_config\<lparr>busqueda_intensiva := True, busqueda_intesiva := Some True\<rparr>,
          targets = DEFAULT_TARGETS\<rparr>"
    using s i by simp
  moreover have "self' = \<lparr>cfg = default_config\<lparr>busqueda_intensiva := True, busqueda_intesiva := None\<rparr>,
          targets = DEFAULT_TARGETS\<rparr>"
    using s' i' by simp
  ultimately show ?thesis
    using h c i eq by simp
qed

end
